theory Spec2Isabelle
  imports Main
begin

section \<open>Values of object literals and front-matter blocks\<close>

text \<open>
  The repository is static content: \<^verbatim>\<open>src/data/projectsData.ts\<close> declares an array of
  object literals, and every article document starts with a front-matter block of
  \<^verbatim>\<open>key: value\<close> lines. The values that occur are quoted text, the booleans
  \<^verbatim>\<open>true\<close>/\<^verbatim>\<open>false\<close> and bracketed lists. An object literal or a front-matter block is a
  finite map from its keys to such values; a key that is not written is absent.
\<close>

datatype fieldvalue = Text string | Flag bool | Items "fieldvalue list"

type_synonym rawrecord = "string \<rightharpoonup> fieldvalue"

fun asText :: "fieldvalue \<Rightarrow> string option" where
  "asText (Text s) = Some s"
| "asText (Flag b) = None"
| "asText (Items vs) = None"

fun asFlag :: "fieldvalue \<Rightarrow> bool option" where
  "asFlag (Flag b) = Some b"
| "asFlag (Text s) = None"
| "asFlag (Items vs) = None"

fun allText :: "fieldvalue list \<Rightarrow> string list option" where
  "allText [] = Some []"
| "allText (v # vs) =
     (case asText v of
        None \<Rightarrow> None
      | Some s \<Rightarrow> (case allText vs of None \<Rightarrow> None | Some ss \<Rightarrow> Some (s # ss)))"

fun asLabels :: "fieldvalue \<Rightarrow> string list option" where
  "asLabels (Items vs) = allText vs"
| "asLabels (Text s) = None"
| "asLabels (Flag b) = None"

section \<open>Article records\<close>

text \<open>
  Modelled from the spec: the sources declare no type for articles; the record below is
  the ArticleRecord of the spec's data model (title, date, lastmod, tags, draft, summary),
  with the field names of the front-matter keys and the optional \<^verbatim>\<open>images\<close> key of the
  input format. The body of a document is not part of the record: no operation reads it.
\<close>

record Article =
  title :: string
  date :: string
  lastmod :: string
  tags :: "string list"
  draft :: bool
  summary :: string
  images :: "string list option"

text \<open>
  The front-matter blocks of the six documents under \<^verbatim>\<open>src/\<close>, as written: the document
  of \<^verbatim>\<open>src/unnamed/part_000\<close>, the one of \<^verbatim>\<open>how-useState-hook-works-internally-in-react-18.mdx\<close>,
  the two of \<^verbatim>\<open>understanding-the-virtual-dom-and-fiber-tree-in-react.mdx\<close> (lines 1 and 168)
  and the two that follow the module in \<^verbatim>\<open>projectsData.ts\<close> (lines 25 and 472). A character
  outside ASCII is written as the bytes of its UTF-8 encoding.
\<close>

definition blogFrontMatter :: "rawrecord list" where
  "blogFrontMatter =
    [ [ ''title'' \<mapsto> Text (''Angular Ivy Engine: Efficient Rendering Without Virtual DOM Overhead''),
        ''date'' \<mapsto> Text (''2024-11-12''),
        ''lastmod'' \<mapsto> Text (''2024-11-12''),
        ''tags'' \<mapsto> Items [Text ''Angular'', Text ''Ivy''],
        ''draft'' \<mapsto> Flag False,
        ''summary'' \<mapsto> Text (''Delves into how Angular Ivy rendering engine optimizes application performance without relying on a virtual DOM.''),
        ''images'' \<mapsto> Items [] ],
      [ ''title'' \<mapsto> Text (''How `useState( )` Hook Works Internally in React 18''),
        ''date'' \<mapsto> Text (''2024-03-14''),
        ''lastmod'' \<mapsto> Text (''2024-03-14''),
        ''tags'' \<mapsto> Items [Text ''react-js'', Text ''in-depth''],
        ''draft'' \<mapsto> Flag False,
        ''summary'' \<mapsto> Text (''Learn how `mountState( )` and `updateState( )` manage state across renders, and why following the rules of hooks'' @ [CHR 0xE2, CHR 0x80, CHR 0x94] @ ''like calling them at the top level and avoiding conditional use, avoid directly calling a component function, asynchronous nature of `setState( )`, etc '' @ [CHR 0xE2, CHR 0x80, CHR 0x94] @ ''is crucial for maintaining consistent state in your components.''),
        ''images'' \<mapsto> Items [] ],
      [ ''title'' \<mapsto> Text (''Understanding the Virtual DOM and Fiber Tree in React''),
        ''date'' \<mapsto> Text (''2023-07-01''),
        ''lastmod'' \<mapsto> Text (''2023-07-01''),
        ''tags'' \<mapsto> Items [Text ''react-js''],
        ''draft'' \<mapsto> Flag False,
        ''summary'' \<mapsto> Text (''Explore the Virtual DOM in React, the basics of React elements, the role of JSX, and the structure of the fiber node tree.''),
        ''images'' \<mapsto> Items [] ],
      [ ''title'' \<mapsto> Text (''Event Handling in React 18''),
        ''date'' \<mapsto> Text (''2024-01-02''),
        ''lastmod'' \<mapsto> Text (''2024-01-02''),
        ''tags'' \<mapsto> Items [Text ''react-js''],
        ''draft'' \<mapsto> Flag False,
        ''summary'' \<mapsto> Text (''In React, events are encapsulated within synthetic events, and instead of attaching event handlers to individual HTML elements, React employs a technique known as event delegation, attaching a single event listener to the root element.''),
        ''images'' \<mapsto> Items [] ],
      [ ''title'' \<mapsto> Text (''Concurrent Rendering and Lane Prioritization in React 18''),
        ''date'' \<mapsto> Text (''2024-08-11''),
        ''lastmod'' \<mapsto> Text (''2024-08-11''),
        ''tags'' \<mapsto> Items [Text ''react-js'', Text ''in-depth''],
        ''draft'' \<mapsto> Flag False,
        ''summary'' \<mapsto> Text (''React categorizes pending updates into 31 update lanes, each representing different priority levels. React schedules and executes these updates by enqueuing tasks into a task queue that integrates with the JavaScript event loop. It processes updates in small chunks, yielding control back to the browser every 5ms to keep the UI responsive.''),
        ''images'' \<mapsto> Items [] ],
      [ ''title'' \<mapsto> Text (''Setup DOM Break Point''),
        ''date'' \<mapsto> Text (''2022-11-16''),
        ''lastmod'' \<mapsto> Text (''2022-11-16''),
        ''tags'' \<mapsto> Items [Text ''web-development'', Text ''javascript''],
        ''draft'' \<mapsto> Flag False,
        ''summary'' \<mapsto> Text (''Learn how to set a DOM breakpoint in your browser to debug dynamic content changes and optimize performance.''),
        ''images'' \<mapsto> Items [] ] ]"

section \<open>Project records\<close>

text \<open>
  \<^verbatim>\<open>interface Project { title: string; description: string; href?: string; imgSrc?: string }\<close>
  The two optional properties are \<open>None\<close> when the literal does not write them.
\<close>

record Project =
  title :: string
  description :: string
  href :: "string option"
  imgSrc :: "string option"

text \<open>
  What the interface asks of an object literal. A required property \<^verbatim>\<open>k: string\<close> must be
  written and be text; an optional property \<^verbatim>\<open>k?: string\<close> may be left out and must be text
  when written. A literal that meets the interface is read as the \<open>Project\<close> it denotes.
\<close>

definition requiredString :: "rawrecord \<Rightarrow> string \<Rightarrow> string option" where
  "requiredString r k = (case r k of None \<Rightarrow> None | Some v \<Rightarrow> asText v)"

definition optionalString :: "rawrecord \<Rightarrow> string \<Rightarrow> string option option" where
  "optionalString r k =
     (case r k of
        None \<Rightarrow> Some None
      | Some v \<Rightarrow> (case asText v of None \<Rightarrow> None | Some s \<Rightarrow> Some (Some s)))"

definition readProject :: "rawrecord \<Rightarrow> Project option" where
  "readProject r =
     (case requiredString r ''title'' of
        None \<Rightarrow> None
      | Some t \<Rightarrow>
         (case requiredString r ''description'' of
            None \<Rightarrow> None
          | Some d \<Rightarrow>
             (case optionalString r ''href'' of
                None \<Rightarrow> None
              | Some h \<Rightarrow>
                 (case optionalString r ''imgSrc'' of
                    None \<Rightarrow> None
                  | Some i \<Rightarrow>
                     Some \<lparr> title = t, description = d, href = h, imgSrc = i \<rparr>))))"

text \<open>The array literal of \<^verbatim>\<open>projectsData\<close>, key by key in the order of the source.\<close>

definition projectsLiteral :: "rawrecord list" where
  "projectsLiteral =
    [ [ ''title'' \<mapsto> Text ''Angular Dashboard Starter'',
        ''description'' \<mapsto> Text ''A dashboard starter pack build with Angular 18, Nest.js 9, TypeScript 5'',
        ''imgSrc'' \<mapsto> Text ''/static/images/angular-dashboard-screen.png'',
        ''href'' \<mapsto> Text ''https://www.j1032.com/dashboard'' ],
      [ ''title'' \<mapsto> Text ''React.js Dashboard Starter'',
        ''description'' \<mapsto> Text ''ReactJS frontend and NestJS backend dashboard starter, build with React 18,  Nest.js 9, Nx monorepo, TypeScript'',
        ''imgSrc'' \<mapsto> Text ''/static/images/react-dashboard-swagger-screen.png'',
        ''href'' \<mapsto> Text ''https://github.com/j1032w/das-mono-nestjs-reactjs'' ] ]"

text \<open>The constant \<^verbatim>\<open>projectsData: Project[]\<close> that the literal denotes.\<close>

definition projectsData :: "Project list" where
  "projectsData =
    [ \<lparr> title = ''Angular Dashboard Starter'',
        description = ''A dashboard starter pack build with Angular 18, Nest.js 9, TypeScript 5'',
        href = Some ''https://www.j1032.com/dashboard'',
        imgSrc = Some ''/static/images/angular-dashboard-screen.png'' \<rparr>,
      \<lparr> title = ''React.js Dashboard Starter'',
        description = ''ReactJS frontend and NestJS backend dashboard starter, build with React 18,  Nest.js 9, Nx monorepo, TypeScript'',
        href = Some ''https://github.com/j1032w/das-mono-nestjs-reactjs'',
        imgSrc = Some ''/static/images/react-dashboard-swagger-screen.png'' \<rparr> ]"

section \<open>The record store and its operations\<close>

text \<open>
  The store holds the two collections. An operation takes the store and returns its result
  together with the store it leaves behind.
\<close>

record RecordStore =
  projects :: "Project list"
  articles :: "Article list"

text \<open>
  \<^verbatim>\<open>export default projectsData\<close>: the only access the module gives to the project
  collection is the array itself, as declared.
\<close>

definition listProjects :: "RecordStore \<Rightarrow> Project list \<times> RecordStore" where
  "listProjects s = (projects s, s)"

text \<open>
  Modelled from the spec: \<^verbatim>\<open>listArticles(includeDrafts)\<close> is not in the sources (only
  the documents and their \<^verbatim>\<open>draft\<close> keys are). The spec has it go through the articles in
  order, by straight iteration, and leave out those with \<^verbatim>\<open>draft = true\<close> unless drafts
  are asked for. \<open>keepArticles\<close> is that iteration.
\<close>

fun keepArticles :: "bool \<Rightarrow> Article list \<Rightarrow> Article list" where
  "keepArticles includeDrafts [] = []"
| "keepArticles includeDrafts (a # rest) =
     (if draft a \<and> \<not> includeDrafts then keepArticles includeDrafts rest
      else a # keepArticles includeDrafts rest)"

text \<open>
  Modelled from the spec: the operation \<^verbatim>\<open>listArticles(includeDrafts)\<close>, which is not in
  the sources; it has no side effect, so the store it leaves behind is the one it was given.
\<close>

definition listArticles :: "bool \<Rightarrow> RecordStore \<Rightarrow> Article list \<times> RecordStore" where
  "listArticles includeDrafts s = (keepArticles includeDrafts (articles s), s)"

section \<open>The exported array as a shared object\<close>

text \<open>
  \<^verbatim>\<open>const projectsData: Project[] = [...]\<close> creates one array object and binds the name to it;
  \<^verbatim>\<open>export default projectsData\<close> hands the value of the binding, a reference to that
  object, to every importer. The binding is \<^verbatim>\<open>const\<close>: it points at the same object for
  good. The object is an ordinary array: its type is \<^verbatim>\<open>Project[]\<close>, not a readonly one, and
  nothing in the sources freezes it. So the array lives in a heap of array objects, and
  whoever holds the reference reads and writes the one object there.

  The articles are kept as the sequence the store holds: what a consumer could do to them
  depends on \<^verbatim>\<open>listArticles\<close>, which is not in the sources, and no step below touches
  them other than \<open>listArticles\<close> itself.
\<close>

type_synonym ref = nat

record Runtime =
  arrays :: "ref \<rightharpoonup> Project list"
  projectsData_ref :: ref
  articleSequence :: "Article list"

text \<open>Evaluating the module: the array literal becomes an object and the name is bound.\<close>

definition moduleLoad :: "Project list \<Rightarrow> Article list \<Rightarrow> Runtime" where
  "moduleLoad ps docs = \<lparr> arrays = [0 \<mapsto> ps], projectsData_ref = 0, articleSequence = docs \<rparr>"

text \<open>
  \<^verbatim>\<open>export default projectsData\<close>, as an importer meets it: the reference, not a copy.
\<close>

definition exportDefault :: "Runtime \<Rightarrow> ref \<times> Runtime" where
  "exportDefault rt = (projectsData_ref rt, rt)"

text \<open>Reading the array a reference points at.\<close>

definition elements :: "ref \<Rightarrow> Runtime \<Rightarrow> Project list option" where
  "elements r rt = arrays rt r"

text \<open>
  Two of the methods every holder of a \<^verbatim>\<open>Project[]\<close> has: \<^verbatim>\<open>a.push(p)\<close> appends to the
  array object and \<^verbatim>\<open>a.pop()\<close> removes its last element (none when it is empty). Both
  change the object in place. A reference that points at no array does not occur in a
  running program; the runtime is left as it is then.
\<close>

definition push :: "ref \<Rightarrow> Project \<Rightarrow> Runtime \<Rightarrow> Runtime" where
  "push r p rt =
     (case arrays rt r of
        None \<Rightarrow> rt
      | Some xs \<Rightarrow> rt\<lparr> arrays := (arrays rt)(r \<mapsto> xs @ [p]) \<rparr>)"

definition pop :: "ref \<Rightarrow> Runtime \<Rightarrow> Runtime" where
  "pop r rt =
     (case arrays rt r of
        None \<Rightarrow> rt
      | Some xs \<Rightarrow> rt\<lparr> arrays := (arrays rt)(r \<mapsto> butlast xs) \<rparr>)"

text \<open>
  The store an operation of the module works on is the one the runtime holds at that
  moment: the contents of the array the binding points at, and the articles. After the
  operation the runtime holds the store the operation leaves behind.
\<close>

definition storeOf :: "Runtime \<Rightarrow> RecordStore option" where
  "storeOf rt =
     (case arrays rt (projectsData_ref rt) of
        None \<Rightarrow> None
      | Some ps \<Rightarrow> Some \<lparr> projects = ps, articles = articleSequence rt \<rparr>)"

definition putStore :: "RecordStore \<Rightarrow> Runtime \<Rightarrow> Runtime" where
  "putStore s rt =
     rt\<lparr> arrays := (arrays rt)(projectsData_ref rt \<mapsto> projects s),
         articleSequence := articles s \<rparr>"

text \<open>
  What can happen at run time, one step after the other: a call of one of the two
  operations of the module, or a consumer that imported the array and calls \<^verbatim>\<open>push\<close> or
  \<^verbatim>\<open>pop\<close> on what the export gave it. A step returns what the caller sees and the runtime
  it leaves behind.
\<close>

datatype event = CallListProjects | CallListArticles bool | ConsumerPush Project | ConsumerPop

datatype seen = SeenProjects "Project list" | SeenArticles "Article list" | SeenNothing

fun step :: "event \<Rightarrow> Runtime \<Rightarrow> seen \<times> Runtime" where
  "step CallListProjects rt =
     (case storeOf rt of
        None \<Rightarrow> (SeenNothing, rt)
      | Some s \<Rightarrow> (SeenProjects (fst (listProjects s)), putStore (snd (listProjects s)) rt))"
| "step (CallListArticles includeDrafts) rt =
     (case storeOf rt of
        None \<Rightarrow> (SeenNothing, rt)
      | Some s \<Rightarrow>
          (SeenArticles (fst (listArticles includeDrafts s)),
           putStore (snd (listArticles includeDrafts s)) rt))"
| "step (ConsumerPush p) rt =
     (SeenNothing, push (fst (exportDefault rt)) p (snd (exportDefault rt)))"
| "step ConsumerPop rt =
     (SeenNothing, pop (fst (exportDefault rt)) (snd (exportDefault rt)))"

fun runSteps :: "event list \<Rightarrow> Runtime \<Rightarrow> Runtime" where
  "runSteps [] rt = rt"
| "runSteps (x # xs) rt = runSteps xs (snd (step x rt))"

text \<open>The steps that are operations of the module itself.\<close>

fun moduleCall :: "event \<Rightarrow> bool" where
  "moduleCall CallListProjects = True"
| "moduleCall (CallListArticles includeDrafts) = True"
| "moduleCall (ConsumerPush p) = False"
| "moduleCall ConsumerPop = False"

section \<open>Schema validation at load time\<close>

text \<open>
  Modelled from the spec: the sources hold no loader and no validator, and no error type.
  The spec has one error kind, \<^verbatim>\<open>SchemaValidationError\<close>, raised when a required field is
  missing or a field's type does not match the schema; it names the offending record and
  the field. A record is named here by its collection and its position in it.
\<close>

datatype collection = ProjectRecords | ArticleRecords

datatype problem = Missing | WrongType

datatype SchemaValidationError = SchemaValidationError collection nat string problem

text \<open>
  Modelled from the spec: the check of a required field, which is not in the sources. The
  field must be written (else it is missing) and must decode at its type (else its type is
  wrong).
\<close>

definition required ::
  "(fieldvalue \<Rightarrow> 'a option) \<Rightarrow> collection \<Rightarrow> nat \<Rightarrow> rawrecord \<Rightarrow> string
    \<Rightarrow> SchemaValidationError + 'a" where
  "required decode c i r k =
     (case r k of
        None \<Rightarrow> Inl (SchemaValidationError c i k Missing)
      | Some v \<Rightarrow>
         (case decode v of
            None \<Rightarrow> Inl (SchemaValidationError c i k WrongType)
          | Some x \<Rightarrow> Inr x))"

text \<open>
  Modelled from the spec: the check of an optional field, which is not in the sources. The
  field may be left out; when written it must decode at its type.
\<close>

definition optional ::
  "(fieldvalue \<Rightarrow> 'a option) \<Rightarrow> collection \<Rightarrow> nat \<Rightarrow> rawrecord \<Rightarrow> string
    \<Rightarrow> SchemaValidationError + 'a option" where
  "optional decode c i r k =
     (case r k of
        None \<Rightarrow> Inr None
      | Some v \<Rightarrow>
         (case decode v of
            None \<Rightarrow> Inl (SchemaValidationError c i k WrongType)
          | Some x \<Rightarrow> Inr (Some x)))"

text \<open>
  Modelled from the spec: the check that every required field of a record is written, which
  is not in the sources. The spec has a record that misses a required field raise the error
  that identifies that field, so the fields are looked for before any type is checked; the
  first one that is absent is reported.
\<close>

fun requireFields ::
  "collection \<Rightarrow> nat \<Rightarrow> rawrecord \<Rightarrow> string list \<Rightarrow> SchemaValidationError + unit" where
  "requireFields c i r [] = Inr ()"
| "requireFields c i r (k # ks) =
     (case r k of
        None \<Rightarrow> Inl (SchemaValidationError c i k Missing)
      | Some v \<Rightarrow> requireFields c i r ks)"

text \<open>
  Modelled from the spec: an error is passed on at once (validation fails fast); this is
  the sequencing the validators below are written with.
\<close>

definition andThen :: "'e + 'a \<Rightarrow> ('a \<Rightarrow> 'e + 'b) \<Rightarrow> 'e + 'b" where
  "andThen r f = (case r of Inl e \<Rightarrow> Inl e | Inr x \<Rightarrow> f x)"

text \<open>
  Modelled from the spec: the validation of one project record, which is not in the
  sources. The schema is the interface \<open>Project\<close> of the sources: the required fields are
  looked for first, then each field is checked at its type, in the order of the interface.
\<close>

definition validateProject :: "nat \<Rightarrow> rawrecord \<Rightarrow> SchemaValidationError + Project" where
  "validateProject i r =
     andThen (requireFields ProjectRecords i r [''title'', ''description'']) (\<lambda>u.
     andThen (required asText ProjectRecords i r ''title'') (\<lambda>t.
     andThen (required asText ProjectRecords i r ''description'') (\<lambda>d.
     andThen (optional asText ProjectRecords i r ''href'') (\<lambda>h.
     andThen (optional asText ProjectRecords i r ''imgSrc'') (\<lambda>im.
     Inr \<lparr> title = t, description = d, href = h, imgSrc = im \<rparr>)))))"

text \<open>
  Modelled from the spec: the validation of one front-matter block, which is not in the
  sources. The schema is the spec's: title, date, lastmod, tags, draft and summary are
  required, tags a list of text labels, draft a boolean, the others text; images is
  optional. The required fields are looked for first, then each field is checked at its
  type.
\<close>

definition validateArticle :: "nat \<Rightarrow> rawrecord \<Rightarrow> SchemaValidationError + Article" where
  "validateArticle i r =
     andThen (requireFields ArticleRecords i r
                [''title'', ''date'', ''lastmod'', ''tags'', ''draft'', ''summary'']) (\<lambda>u.
     andThen (required asText ArticleRecords i r ''title'') (\<lambda>t.
     andThen (required asText ArticleRecords i r ''date'') (\<lambda>d.
     andThen (required asText ArticleRecords i r ''lastmod'') (\<lambda>m.
     andThen (required asLabels ArticleRecords i r ''tags'') (\<lambda>ts.
     andThen (required asFlag ArticleRecords i r ''draft'') (\<lambda>dr.
     andThen (required asText ArticleRecords i r ''summary'') (\<lambda>su.
     andThen (optional asLabels ArticleRecords i r ''images'') (\<lambda>im.
     Inr \<lparr> Article.title = t, date = d, lastmod = m, tags = ts, draft = dr,
           summary = su, images = im \<rparr>))))))))"

text \<open>
  Modelled from the spec: validation runs over every record when the store is loaded, and
  the first error ends the load. The loop is not in the sources.
\<close>

fun validateAll ::
  "(nat \<Rightarrow> rawrecord \<Rightarrow> SchemaValidationError + 'a) \<Rightarrow> nat \<Rightarrow> rawrecord list
    \<Rightarrow> SchemaValidationError + 'a list" where
  "validateAll v i [] = Inr []"
| "validateAll v i (r # rs) =
     (case v i r of
        Inl e \<Rightarrow> Inl e
      | Inr x \<Rightarrow> (case validateAll v (Suc i) rs of Inl e \<Rightarrow> Inl e | Inr xs \<Rightarrow> Inr (x # xs)))"

text \<open>
  Modelled from the spec: loading the two collections, which is not in the sources.
\<close>

definition loadProjects :: "rawrecord list \<Rightarrow> SchemaValidationError + Project list" where
  "loadProjects rs = validateAll validateProject 0 rs"

text \<open>
  Modelled from the spec: see \<open>loadProjects\<close>; the loader of the articles is not in the
  sources either.
\<close>

definition loadArticles :: "rawrecord list \<Rightarrow> SchemaValidationError + Article list" where
  "loadArticles rs = validateAll validateArticle 0 rs"

text \<open>
  Modelled from the spec: loading the store, which is not in the sources. An error in
  either collection is the result of the load, and there is no store then (no partial
  catalog).
\<close>

definition loadStore ::
  "rawrecord list \<Rightarrow> rawrecord list \<Rightarrow> SchemaValidationError + RecordStore" where
  "loadStore ps docs =
     andThen (loadProjects ps) (\<lambda>p.
     andThen (loadArticles docs) (\<lambda>a.
     Inr \<lparr> projects = p, articles = a \<rparr>))"

section \<open>Listing projects\<close>

text \<open>
  C1: for every sequence of project records, \<open>listProjects\<close> returns all of them in the
  order they were declared, without filtering and without an error (its result is a plain
  list); for the two records A (no href) and B (href \<^verbatim>\<open>https://x\<close>) it returns exactly
  \<open>[A, B]\<close>, with A's href unset and B's href set.
\<close>

theorem listProjects_preserves_order:
  "fst (listProjects s) = projects s
   \<and> fst (listProjects \<lparr> projects = ps, articles = as \<rparr>) = ps
   \<and> fst (listProjects
        \<lparr> projects =
            [ \<lparr> title = ''A'', description = ''d1'', href = None, imgSrc = None \<rparr>,
              \<lparr> title = ''B'', description = ''d2'', href = Some ''https://x'', imgSrc = None \<rparr> ],
          articles = as \<rparr>)
       = [ \<lparr> title = ''A'', description = ''d1'', href = None, imgSrc = None \<rparr>,
           \<lparr> title = ''B'', description = ''d2'', href = Some ''https://x'', imgSrc = None \<rparr> ]
   \<and> map title (fst (listProjects
        \<lparr> projects =
            [ \<lparr> title = ''A'', description = ''d1'', href = None, imgSrc = None \<rparr>,
              \<lparr> title = ''B'', description = ''d2'', href = Some ''https://x'', imgSrc = None \<rparr> ],
          articles = as \<rparr>)) = [''A'', ''B'']
   \<and> map href (fst (listProjects
        \<lparr> projects =
            [ \<lparr> title = ''A'', description = ''d1'', href = None, imgSrc = None \<rparr>,
              \<lparr> title = ''B'', description = ''d2'', href = Some ''https://x'', imgSrc = None \<rparr> ],
          articles = as \<rparr>)) = [None, Some ''https://x'']"
  by (simp add: listProjects_def)

text \<open>
  C5: on an empty project collection \<open>listProjects\<close> returns the empty sequence; there is
  no error value it could return instead.
\<close>

theorem listProjects_empty:
  "fst (listProjects \<lparr> projects = [], articles = as \<rparr>) = []"
  by (simp add: listProjects_def)

text \<open>
  The array literal of the source meets the interface record by record, and the records
  it denotes are those of \<open>projectsData\<close>.
\<close>

lemma literal_denotes_projectsData:
  "map readProject projectsLiteral = map Some projectsData"
  by (simp add: projectsLiteral_def projectsData_def readProject_def
      requiredString_def optionalString_def)

text \<open>
  C8: on the data of the repository \<open>listProjects\<close> returns exactly two records, the
  Angular starter before the React starter, and both carry a non-empty href and a non-empty
  imgSrc.
\<close>

theorem listProjects_shipped:
  "fst (listProjects \<lparr> projects = projectsData, articles = as \<rparr>) = projectsData
   \<and> length (fst (listProjects \<lparr> projects = projectsData, articles = as \<rparr>)) = 2
   \<and> map title (fst (listProjects \<lparr> projects = projectsData, articles = as \<rparr>))
       = [''Angular Dashboard Starter'', ''React.js Dashboard Starter'']
   \<and> map href (fst (listProjects \<lparr> projects = projectsData, articles = as \<rparr>))
       = [Some ''https://www.j1032.com/dashboard'',
          Some ''https://github.com/j1032w/das-mono-nestjs-reactjs'']
   \<and> map imgSrc (fst (listProjects \<lparr> projects = projectsData, articles = as \<rparr>))
       = [Some ''/static/images/angular-dashboard-screen.png'',
          Some ''/static/images/react-dashboard-swagger-screen.png'']
   \<and> list_all (\<lambda>p. href p \<noteq> None \<and> href p \<noteq> Some [] \<and> imgSrc p \<noteq> None \<and> imgSrc p \<noteq> Some [])
        (fst (listProjects \<lparr> projects = projectsData, articles = as \<rparr>))"
  by (simp add: listProjects_def projectsData_def)

section \<open>Listing articles\<close>

lemma keepArticles_filter:
  "keepArticles includeDrafts xs = filter (\<lambda>a. includeDrafts \<or> \<not> draft a) xs"
  by (induction xs) auto

lemma keepArticles_no_drafts:
  "list_all (\<lambda>a. \<not> draft a) xs \<Longrightarrow> keepArticles includeDrafts xs = xs"
  by (induction xs) simp_all

text \<open>
  C2: without drafts, \<open>listArticles\<close> returns exactly the articles whose draft flag is
  false, in their declared order, so none with \<open>draft = true\<close>; with drafts it returns the
  whole sequence.
\<close>

theorem listArticles_drafts:
  "fst (listArticles False s) = filter (\<lambda>a. \<not> draft a) (articles s)
   \<and> list_all (\<lambda>a. \<not> draft a) (fst (listArticles False s))
   \<and> fst (listArticles True s) = articles s"
  by (simp add: listArticles_def keepArticles_filter list_all_iff)

section \<open>Who can change the store\<close>

lemma putStore_storeOf: "storeOf rt = Some s \<Longrightarrow> putStore s rt = rt"
  by (auto simp: storeOf_def putStore_def map_upd_triv split: option.splits)

lemma moduleCall_keeps_runtime: "moduleCall x \<Longrightarrow> snd (step x rt) = rt"
  by (cases x)
    (auto simp: listProjects_def listArticles_def putStore_storeOf split: option.splits)

lemma moduleCalls_keep_runtime: "list_all moduleCall xs \<Longrightarrow> runSteps xs rt = rt"
  by (induction xs arbitrary: rt) (simp_all add: moduleCall_keeps_runtime)

lemma step_keeps_binding: "projectsData_ref (snd (step x rt)) = projectsData_ref rt"
  by (cases x)
    (auto simp: putStore_def push_def pop_def exportDefault_def split: option.splits)

lemma runSteps_keeps_binding: "projectsData_ref (runSteps xs rt) = projectsData_ref rt"
  by (induction xs arbitrary: rt) (simp_all add: step_keeps_binding)

text \<open>
  C6, as amended: the operations of the module do not change the store. \<open>listProjects\<close>,
  \<open>listArticles\<close> and the export leave behind what they were given; after any sequence of
  calls of the two operations the runtime is the one before it, and any step gives the
  same result after that sequence as before it. The module has no operation that creates,
  changes or deletes a record, and the binding of \<^verbatim>\<open>projectsData\<close> points at the same
  array whatever happens. What the export gives out is that array itself, and what a call
  of \<open>listProjects\<close> sees is what the array holds at that moment. Nothing is said of a
  sequence in which a consumer changes the array.
\<close>

theorem module_calls_leave_the_store_alone:
  assumes "list_all moduleCall calls"
  shows "runSteps calls rt = rt
       \<and> fst (step x (runSteps calls rt)) = fst (step x rt)
       \<and> snd (listProjects s) = s
       \<and> snd (listArticles includeDrafts s) = s
       \<and> snd (exportDefault rt) = rt
       \<and> projectsData_ref (runSteps anySteps rt) = projectsData_ref rt
       \<and> elements (fst (exportDefault rt)) rt = map_option projects (storeOf rt)
       \<and> fst (step CallListProjects rt)
           = (case elements (fst (exportDefault rt)) rt of
                None \<Rightarrow> SeenNothing
              | Some ps \<Rightarrow> SeenProjects ps)"
proof -
  have same: "runSteps calls rt = rt"
    using assms by (rule moduleCalls_keep_runtime)
  have frames: "snd (listProjects s) = s \<and> snd (listArticles includeDrafts s) = s
      \<and> snd (exportDefault rt) = rt"
    by (simp add: listProjects_def listArticles_def exportDefault_def)
  have shared: "elements (fst (exportDefault rt)) rt = map_option projects (storeOf rt)"
    by (simp add: elements_def exportDefault_def storeOf_def split: option.splits)
  have sees: "fst (step CallListProjects rt)
           = (case elements (fst (exportDefault rt)) rt of
                None \<Rightarrow> SeenNothing
              | Some ps \<Rightarrow> SeenProjects ps)"
    by (simp add: elements_def exportDefault_def storeOf_def listProjects_def
        split: option.splits)
  show ?thesis
    using same frames shared sees by (simp add: runSteps_keeps_binding)
qed

theorem module_calls_leave_the_store_alone_witness:
  "list_all moduleCall [CallListProjects, CallListArticles False, CallListProjects]
   \<and> runSteps [CallListProjects, CallListArticles False, CallListProjects]
        (moduleLoad projectsData [])
       = moduleLoad projectsData []
   \<and> fst (step CallListProjects
        (runSteps [CallListProjects, CallListArticles False, CallListProjects]
           (moduleLoad projectsData [])))
       = SeenProjects projectsData"
proof -
  have h: "list_all moduleCall [CallListProjects, CallListArticles False, CallListProjects]"
    by simp
  have first: "fst (step CallListProjects (moduleLoad projectsData [])) = SeenProjects projectsData"
    by (simp add: moduleLoad_def storeOf_def listProjects_def)
  show ?thesis
    using h first
      module_calls_leave_the_store_alone [OF h, of "moduleLoad projectsData []" CallListProjects]
    by simp
qed

text \<open>
  The claim as stated has the two sequences identical at every call, with no way to create,
  change or delete a record. Here a consumer imports the array and pushes a record between
  two calls of \<open>listProjects\<close>: the second call sees the record. After a \<^verbatim>\<open>pop\<close> a call
  sees one record less.
\<close>

theorem shared_array_counterexample:
  "fst (step CallListProjects
     (moduleLoad [\<lparr> title = ''A'', description = ''d1'', href = None, imgSrc = None \<rparr>] []))
     = SeenProjects [\<lparr> title = ''A'', description = ''d1'', href = None, imgSrc = None \<rparr>]
   \<and> fst (step CallListProjects
       (runSteps
          [CallListProjects,
           ConsumerPush \<lparr> title = ''B'', description = ''d2'', href = None, imgSrc = None \<rparr>]
          (moduleLoad [\<lparr> title = ''A'', description = ''d1'', href = None, imgSrc = None \<rparr>] [])))
     = SeenProjects
         [\<lparr> title = ''A'', description = ''d1'', href = None, imgSrc = None \<rparr>,
          \<lparr> title = ''B'', description = ''d2'', href = None, imgSrc = None \<rparr>]
   \<and> fst (step CallListProjects
       (runSteps [ConsumerPop]
          (moduleLoad [\<lparr> title = ''A'', description = ''d1'', href = None, imgSrc = None \<rparr>] [])))
     = SeenProjects []"
  by (simp add: moduleLoad_def storeOf_def putStore_def listProjects_def
      push_def pop_def exportDefault_def)

section \<open>The schema of a project\<close>

lemma requiredString_Some: "requiredString r k = Some s \<longleftrightarrow> r k = Some (Text s)"
  by (auto simp: requiredString_def split: option.splits elim: asText.elims)

lemma optionalString_Some: "optionalString r k = Some h \<longleftrightarrow> r k = map_option Text h"
  by (cases h) (auto simp: optionalString_def split: option.splits elim: asText.elims)

lemma readProject_Some:
  "readProject r = Some p \<longleftrightarrow>
     r ''title'' = Some (Text (title p)) \<and> r ''description'' = Some (Text (description p))
     \<and> r ''href'' = map_option Text (href p) \<and> r ''imgSrc'' = map_option Text (imgSrc p)"
proof
  assume "readProject r = Some p"
  then obtain t d h i where
    "requiredString r ''title'' = Some t" "requiredString r ''description'' = Some d"
    "optionalString r ''href'' = Some h" "optionalString r ''imgSrc'' = Some i"
    "p = \<lparr> title = t, description = d, href = h, imgSrc = i \<rparr>"
    by (auto simp: readProject_def split: option.splits)
  then show "r ''title'' = Some (Text (title p)) \<and> r ''description'' = Some (Text (description p))
     \<and> r ''href'' = map_option Text (href p) \<and> r ''imgSrc'' = map_option Text (imgSrc p)"
    by (simp add: requiredString_Some optionalString_Some)
next
  assume "r ''title'' = Some (Text (title p)) \<and> r ''description'' = Some (Text (description p))
     \<and> r ''href'' = map_option Text (href p) \<and> r ''imgSrc'' = map_option Text (imgSrc p)"
  then have "requiredString r ''title'' = Some (title p)"
    "requiredString r ''description'' = Some (description p)"
    "optionalString r ''href'' = Some (href p)" "optionalString r ''imgSrc'' = Some (imgSrc p)"
    by (simp_all add: requiredString_Some optionalString_Some)
  then show "readProject r = Some p"
    by (simp add: readProject_def)
qed

text \<open>
  C4, as amended: a literal that meets the interface has its title and its description,
  both text (the interface asks for \<^verbatim>\<open>string\<close>, not for a non-empty one; the two titles of
  the repository are non-empty); whatever its href and imgSrc are, replacing them by any
  combination of absent and present text gives a literal that meets the interface again,
  with the other fields unchanged; and the collection is a sequence that keeps two records
  with the same title, in order.
\<close>

theorem project_schema:
  assumes "readProject r = Some p"
  shows "r ''title'' = Some (Text (title p))
       \<and> r ''description'' = Some (Text (description p))
       \<and> readProject (r(''href'' := map_option Text h, ''imgSrc'' := map_option Text i))
           = Some (p\<lparr> href := h, imgSrc := i \<rparr>)
       \<and> fst (listProjects \<lparr> projects = [p, p], articles = as \<rparr>) = [p, p]
       \<and> map title (fst (listProjects \<lparr> projects = [p, p], articles = as \<rparr>))
           = [title p, title p]
       \<and> list_all (\<lambda>q. title q \<noteq> []) projectsData"
  using assms by (simp add: readProject_Some listProjects_def projectsData_def)

theorem project_schema_witness:
  "readProject [''title'' \<mapsto> Text ''A'', ''description'' \<mapsto> Text ''d1'']
     = Some \<lparr> title = ''A'', description = ''d1'', href = None, imgSrc = None \<rparr>
   \<and> readProject ([''title'' \<mapsto> Text ''A'', ''description'' \<mapsto> Text ''d1'']
        (''href'' := map_option Text (Some ''https://x''), ''imgSrc'' := map_option Text None))
     = Some \<lparr> title = ''A'', description = ''d1'', href = Some ''https://x'', imgSrc = None \<rparr>
   \<and> readProject ([''title'' \<mapsto> Text ''A'', ''description'' \<mapsto> Text ''d1'']
        (''href'' := map_option Text None, ''imgSrc'' := map_option Text (Some ''/a.png'')))
     = Some \<lparr> title = ''A'', description = ''d1'', href = None, imgSrc = Some ''/a.png'' \<rparr>"
proof -
  have h: "readProject [''title'' \<mapsto> Text ''A'', ''description'' \<mapsto> Text ''d1'']
     = Some \<lparr> title = ''A'', description = ''d1'', href = None, imgSrc = None \<rparr>"
    by (simp add: readProject_def requiredString_def optionalString_def)
  show ?thesis
    using h project_schema [OF h, of "Some ''https://x''" None]
      project_schema [OF h, of None "Some ''/a.png''"]
    by simp
qed

text \<open>
  The claim as stated asks for a non-empty title. The literal below has the empty title; it
  meets the interface, and a store that holds its record lists it.
\<close>

theorem empty_title_counterexample:
  "readProject [''title'' \<mapsto> Text '''', ''description'' \<mapsto> Text ''d'']
     = Some \<lparr> title = '''', description = ''d'', href = None, imgSrc = None \<rparr>
   \<and> map title (fst (listProjects
        \<lparr> projects = [\<lparr> title = '''', description = ''d'', href = None, imgSrc = None \<rparr>],
          articles = [] \<rparr>)) = ['''']"
  by (simp add: readProject_def requiredString_def optionalString_def listProjects_def)

section \<open>Validation at load time\<close>

lemmas validation_defs =
  validateProject_def validateArticle_def andThen_def required_def optional_def

text \<open>The validator accepts exactly the literals that meet the interface.\<close>

lemma validateProject_accepts:
  "validateProject i r = Inr p \<longleftrightarrow> readProject r = Some p"
proof -
  have "validateProject i r
      = (case readProject r of
           Some q \<Rightarrow> Inr q
         | None \<Rightarrow> validateProject i r)"
    by (auto simp: validation_defs readProject_def requiredString_def optionalString_def
        split: option.splits)
  moreover have "readProject r = None \<Longrightarrow> validateProject i r \<noteq> Inr p"
    by (auto simp: validation_defs readProject_def requiredString_def optionalString_def
        split: option.splits)
  ultimately show ?thesis
    by (cases "readProject r") auto
qed

text \<open>
  Loading stops at the first record that fails: the load returns that record's error, and
  every record before it was valid.
\<close>

lemma validateAll_first_failure:
  "i < length rs \<Longrightarrow> v (n + i) (rs ! i) = Inl e \<Longrightarrow>
   \<exists>j e'. j \<le> i \<and> v (n + j) (rs ! j) = Inl e' \<and> validateAll v n rs = Inl e'
          \<and> (\<forall>k<j. \<exists>x. v (n + k) (rs ! k) = Inr x)"
proof (induction rs arbitrary: i n)
  case Nil
  then show ?case by simp
next
  case (Cons r rs)
  show ?case
  proof (cases "v n r")
    case (Inl e0)
    then have "0 \<le> i \<and> v (n + 0) ((r # rs) ! 0) = Inl e0 \<and> validateAll v n (r # rs) = Inl e0
          \<and> (\<forall>k<0. \<exists>x. v (n + k) ((r # rs) ! k) = Inr x)"
      by simp
    then show ?thesis by blast
  next
    case (Inr x)
    with Cons.prems obtain i' where i': "i = Suc i'"
      by (cases i) auto
    with Cons.prems have "i' < length rs" "v (Suc n + i') (rs ! i') = Inl e"
      by simp_all
    from Cons.IH [OF this] obtain j e' where j:
      "j \<le> i'" "v (Suc n + j) (rs ! j) = Inl e'" "validateAll v (Suc n) rs = Inl e'"
      "\<forall>k<j. \<exists>x. v (Suc n + k) (rs ! k) = Inr x"
      by blast
    have before: "\<forall>k<Suc j. \<exists>y. v (n + k) ((r # rs) ! k) = Inr y"
    proof (intro allI impI)
      fix k assume "k < Suc j"
      show "\<exists>y. v (n + k) ((r # rs) ! k) = Inr y"
      proof (cases k)
        case 0
        with Inr show ?thesis by simp
      next
        case (Suc k')
        with \<open>k < Suc j\<close> j(4) show ?thesis by simp
      qed
    qed
    have "Suc j \<le> i \<and> v (n + Suc j) ((r # rs) ! Suc j) = Inl e'
          \<and> validateAll v n (r # rs) = Inl e'"
      using j i' Inr by simp
    with before show ?thesis by blast
  qed
qed

text \<open>A load that succeeds keeps every record: none is dropped.\<close>

lemma validateAll_length:
  "validateAll v n rs = Inr xs \<Longrightarrow> length xs = length rs"
  by (induction rs arbitrary: n xs) (auto split: sum.splits)

lemma validateProject_missing_title:
  "r ''title'' = None \<Longrightarrow>
   validateProject j r = Inl (SchemaValidationError ProjectRecords j ''title'' Missing)"
  by (simp add: validation_defs)

lemma validateProject_missing_description:
  "r ''title'' = Some v \<Longrightarrow> r ''description'' = None \<Longrightarrow>
   validateProject j r = Inl (SchemaValidationError ProjectRecords j ''description'' Missing)"
  by (simp add: validation_defs)

lemma validateProject_missing:
  assumes "r ''title'' = None \<or> r ''description'' = None"
  shows "\<exists>f. validateProject j r = Inl (SchemaValidationError ProjectRecords j f Missing)
           \<and> (f = ''title'' \<or> f = ''description'') \<and> r f = None
           \<and> (r ''title'' = None \<longrightarrow> f = ''title'')"
proof (cases "r ''title''")
  case None
  then show ?thesis
    using validateProject_missing_title [of r j] by auto
next
  case (Some v)
  with assms have "r ''description'' = None" by simp
  with Some show ?thesis
    using validateProject_missing_description [of r v j] by auto
qed

lemma validateProject_error:
  "validateProject j r = Inl e \<Longrightarrow>
   \<exists>f pr. e = SchemaValidationError ProjectRecords j f pr \<and> (pr = Missing \<longrightarrow> r f = None)"
  by (auto simp: validation_defs split: option.splits sum.splits)

text \<open>
  C3: when the record at position \<open>i\<close> of the project input has no title or no
  description, loading fails: \<open>loadProjects\<close> and \<open>loadStore\<close> return a
  \<open>SchemaValidationError\<close> and no store, whatever the other records are. The error is the
  one validation gives for the first record \<open>j\<close> that fails (every record before it is
  valid, so \<open>j = i\<close> when the records before \<open>i\<close> are valid); it names that record by its
  position and one of its fields. When that record misses its title or its description, the
  error reports a missing field, the field it names is title or description and is absent
  from the record, and it is title when the title is absent.
\<close>

theorem missing_required_field_is_fatal:
  assumes "i < length rs"
      and "(rs ! i) ''title'' = None \<or> (rs ! i) ''description'' = None"
  shows "\<exists>j f pr. j \<le> i
      \<and> loadProjects rs = Inl (SchemaValidationError ProjectRecords j f pr)
      \<and> loadStore rs docs = Inl (SchemaValidationError ProjectRecords j f pr)
      \<and> validateProject j (rs ! j) = Inl (SchemaValidationError ProjectRecords j f pr)
      \<and> (\<forall>k<j. \<exists>p. validateProject k (rs ! k) = Inr p)
      \<and> ((\<forall>k<i. \<exists>p. validateProject k (rs ! k) = Inr p) \<longrightarrow> j = i)
      \<and> (pr = Missing \<longrightarrow> (rs ! j) f = None)
      \<and> ((rs ! j) ''title'' = None \<or> (rs ! j) ''description'' = None
            \<longrightarrow> pr = Missing \<and> (f = ''title'' \<or> f = ''description''))
      \<and> ((rs ! j) ''title'' = None \<longrightarrow> f = ''title'')"
proof -
  from validateProject_missing [OF assms(2), of i]
  obtain e where "validateProject (0 + i) (rs ! i) = Inl e"
    by auto
  from validateAll_first_failure [where v = validateProject and n = 0, OF assms(1) this]
  obtain j e' where j:
    "j \<le> i" "validateProject j (rs ! j) = Inl e'" "validateAll validateProject 0 rs = Inl e'"
    "\<forall>k<j. \<exists>x. validateProject k (rs ! k) = Inr x"
    by auto
  from validateProject_error [OF j(2)] obtain f pr where e':
    "e' = SchemaValidationError ProjectRecords j f pr" "pr = Missing \<longrightarrow> (rs ! j) f = None"
    by blast
  have first: "(\<forall>k<i. \<exists>p. validateProject k (rs ! k) = Inr p) \<longrightarrow> j = i"
  proof
    assume valid: "\<forall>k<i. \<exists>p. validateProject k (rs ! k) = Inr p"
    show "j = i"
    proof (rule ccontr)
      assume "j \<noteq> i"
      with j(1) have "j < i" by simp
      with valid obtain p where "validateProject j (rs ! j) = Inr p" by blast
      with j(2) show False by simp
    qed
  qed
  have m: "(rs ! j) ''title'' = None \<or> (rs ! j) ''description'' = None
            \<longrightarrow> pr = Missing \<and> (f = ''title'' \<or> f = ''description'')"
    using j(2) e'(1) validateProject_missing [of "rs ! j" j] by auto
  have t: "(rs ! j) ''title'' = None \<longrightarrow> f = ''title''"
    using j(2) e'(1) validateProject_missing_title [of "rs ! j" j] by auto
  have l: "loadProjects rs = Inl e'"
    using j(3) by (simp add: loadProjects_def)
  then have s: "loadStore rs docs = Inl e'"
    by (simp add: loadStore_def andThen_def)
  show ?thesis
    apply (rule exI [of _ j], rule exI [of _ f], rule exI [of _ pr])
    using j(1,2,4) e' first m t l s by simp
qed

theorem missing_required_field_is_fatal_witness:
  "(1::nat) < length
       [ [''title'' \<mapsto> Text ''A'', ''description'' \<mapsto> Text ''d1''],
         [''title'' \<mapsto> Text ''B'', ''href'' \<mapsto> Text ''https://x''] ]
   \<and> (([ [''title'' \<mapsto> Text ''A'', ''description'' \<mapsto> Text ''d1''],
          [''title'' \<mapsto> Text ''B'', ''href'' \<mapsto> Text ''https://x''] ] ! 1) ''title'' = None
      \<or> ([ [''title'' \<mapsto> Text ''A'', ''description'' \<mapsto> Text ''d1''],
           [''title'' \<mapsto> Text ''B'', ''href'' \<mapsto> Text ''https://x''] ] ! 1) ''description'' = None)
   \<and> loadProjects
       [ [''title'' \<mapsto> Text ''A'', ''description'' \<mapsto> Text ''d1''],
         [''title'' \<mapsto> Text ''B'', ''href'' \<mapsto> Text ''https://x''] ]
      = Inl (SchemaValidationError ProjectRecords 1 ''description'' Missing)
   \<and> (\<exists>j f pr. j \<le> (1::nat)
      \<and> loadStore
          [ [''title'' \<mapsto> Text ''A'', ''description'' \<mapsto> Text ''d1''],
            [''title'' \<mapsto> Text ''B'', ''href'' \<mapsto> Text ''https://x''] ] []
         = Inl (SchemaValidationError ProjectRecords j f pr))"
proof -
  let ?rs = "[ [''title'' \<mapsto> Text ''A'', ''description'' \<mapsto> Text ''d1''],
         [''title'' \<mapsto> Text ''B'', ''href'' \<mapsto> Text ''https://x''] ] :: rawrecord list"
  have h1: "1 < length ?rs" by simp
  have h2: "(?rs ! 1) ''title'' = None \<or> (?rs ! 1) ''description'' = None" by simp
  have ev: "loadProjects ?rs = Inl (SchemaValidationError ProjectRecords 1 ''description'' Missing)"
    by (simp add: loadProjects_def validation_defs)
  from missing_required_field_is_fatal [OF h1 h2, of "[]"]
  have "\<exists>j f pr. j \<le> (1::nat) \<and> loadStore ?rs [] = Inl (SchemaValidationError ProjectRecords j f pr)"
    by blast
  with h1 h2 ev show ?thesis by blast
qed

section \<open>The data of the repository\<close>

lemma blog_front_matter_loads:
  "\<exists>xs. loadArticles blogFrontMatter = Inr xs \<and> length xs = 6
      \<and> map draft xs = [False, False, False, False, False, False]"
  by (simp add: loadArticles_def blogFrontMatter_def validation_defs)

lemma projects_literal_loads: "loadProjects projectsLiteral = Inr projectsData"
  by (simp add: loadProjects_def projectsLiteral_def projectsData_def validation_defs)

text \<open>
  C9: each of the six front-matter blocks has \<^verbatim>\<open>draft: false\<close>, so the articles load with
  their draft flag false and \<open>listArticles\<close> returns the same sequence, all of them, with
  and without drafts.
\<close>

theorem shipped_articles_have_no_draft:
  "map (\<lambda>r. r ''draft'') blogFrontMatter
     = [Some (Flag False), Some (Flag False), Some (Flag False),
        Some (Flag False), Some (Flag False), Some (Flag False)]
   \<and> (\<exists>xs. loadArticles blogFrontMatter = Inr xs
        \<and> map draft xs = [False, False, False, False, False, False]
        \<and> fst (listArticles True \<lparr> projects = ps, articles = xs \<rparr>) = xs
        \<and> fst (listArticles False \<lparr> projects = ps, articles = xs \<rparr>) = xs)"
proof -
  have flags: "map (\<lambda>r. r ''draft'') blogFrontMatter
     = [Some (Flag False), Some (Flag False), Some (Flag False),
        Some (Flag False), Some (Flag False), Some (Flag False)]"
    by (simp add: blogFrontMatter_def)
  from blog_front_matter_loads obtain xs where
    xs: "loadArticles blogFrontMatter = Inr xs"
        "map draft xs = [False, False, False, False, False, False]"
    by (elim exE conjE)
  have "list_all (\<lambda>a. \<not> draft a) xs"
  proof -
    have "list_all (\<lambda>d. \<not> d) (map draft xs)"
      by (simp add: xs(2))
    then show ?thesis
      by (simp add: list_all_iff)
  qed
  then have "keepArticles True xs = xs" "keepArticles False xs = xs"
    by (simp_all add: keepArticles_no_drafts)
  then have "fst (listArticles True \<lparr> projects = ps, articles = xs \<rparr>) = xs
        \<and> fst (listArticles False \<lparr> projects = ps, articles = xs \<rparr>) = xs"
    by (simp add: listArticles_def)
  with xs have "\<exists>xs. loadArticles blogFrontMatter = Inr xs
        \<and> map draft xs = [False, False, False, False, False, False]
        \<and> fst (listArticles True \<lparr> projects = ps, articles = xs \<rparr>) = xs
        \<and> fst (listArticles False \<lparr> projects = ps, articles = xs \<rparr>) = xs"
    by (intro exI [of _ xs]) simp
  with flags show ?thesis
    by (intro conjI)
qed

text \<open>
  C10: the data of the repository passes validation, so loading it returns a store and no
  \<open>SchemaValidationError\<close>: the two project literals load as \<open>projectsData\<close>, each with a
  non-empty title and a description, and each of the six front-matter blocks has its
  title, date, lastmod, tags, draft and summary, of the types the schema asks for.
\<close>

theorem shipped_data_validates:
  "loadProjects projectsLiteral = Inr projectsData
   \<and> list_all (\<lambda>p. title p \<noteq> []) projectsData
   \<and> map (\<lambda>r. map (\<lambda>k. r k \<noteq> None) [''title'', ''description'']) projectsLiteral
       = [[True, True], [True, True]]
   \<and> map (\<lambda>r. map (\<lambda>k. r k \<noteq> None)
              [''title'', ''date'', ''lastmod'', ''tags'', ''draft'', ''summary''])
        blogFrontMatter
       = replicate 6 (replicate 6 True)
   \<and> (\<exists>xs. loadArticles blogFrontMatter = Inr xs \<and> length xs = 6
        \<and> loadStore projectsLiteral blogFrontMatter
            = Inr \<lparr> projects = projectsData, articles = xs \<rparr>)"
proof -
  have a: "list_all (\<lambda>p. title p \<noteq> []) projectsData"
    by (simp add: projectsData_def)
  have b: "map (\<lambda>r. map (\<lambda>k. r k \<noteq> None) [''title'', ''description'']) projectsLiteral
       = [[True, True], [True, True]]"
    by (simp add: projectsLiteral_def)
  have c: "map (\<lambda>r. map (\<lambda>k. r k \<noteq> None)
              [''title'', ''date'', ''lastmod'', ''tags'', ''draft'', ''summary''])
        blogFrontMatter
       = replicate 6 (replicate 6 True)"
    by (simp add: blogFrontMatter_def numeral_eq_Suc)
  from blog_front_matter_loads obtain xs where
    xs: "loadArticles blogFrontMatter = Inr xs" "length xs = 6"
    by (elim exE conjE)
  then have "loadStore projectsLiteral blogFrontMatter
            = Inr \<lparr> projects = projectsData, articles = xs \<rparr>"
    by (simp add: loadStore_def andThen_def projects_literal_loads)
  with xs have "\<exists>xs. loadArticles blogFrontMatter = Inr xs \<and> length xs = 6
        \<and> loadStore projectsLiteral blogFrontMatter
            = Inr \<lparr> projects = projectsData, articles = xs \<rparr>"
    by (intro exI [of _ xs]) simp
  with a b c projects_literal_loads show ?thesis
    by (intro conjI)
qed

end
